theory Spec2Isabelle
  imports Complex_Main "HOL-Library.Char_ord" "HOL-Library.List_Lexorder"
begin

section \<open>Indian Property Predictor: the geography catalog\<close>

text \<open>
  The application is one Streamlit script, \<^verbatim>\<open>app.py\<close>. This theory embeds the parts of
  it that carry logic: the geography dictionary and the two selection lists derived from
  it, the startup check of the artifact files, and the prediction engine behind the
  button.

  Python strings are modelled as \<^typ>\<open>string\<close>. Python compares \<^verbatim>\<open>str\<close> values
  lexicographically by code point, a proper prefix being smaller; that is the order
  \<^theory_text>\<open>List_Lexorder\<close> gives to \<^typ>\<open>char list\<close> over the order of
  \<^theory_text>\<open>Char_ord\<close>. Every name of the catalog is ASCII.
\<close>

subsection \<open>\<^verbatim>\<open>indian_geography\<close>\<close>

text \<open>
  The dictionary literal of lines 26--57, as an association list in the order of the
  source. A Python dictionary literal keeps one entry per key; the keys of this literal
  are pairwise distinct (lemma \<open>indian_geography_keys_distinct\<close> below), so the lookup
  \<^const>\<open>map_of\<close> is the dictionary's subscript.
\<close>

definition indian_geography :: "(string \<times> string list) list" where
  "indian_geography =
    [(''Andhra Pradesh'', [''Visakhapatnam'', ''Vijayawada'', ''Guntur'', ''Nellore'', ''Tirupati'']),
     (''Arunachal Pradesh'', [''Itanagar'', ''Tawang'', ''Naharlagun'']),
     (''Assam'', [''Guwahati'', ''Silchar'', ''Dibrugarh'', ''Jorhat'']),
     (''Bihar'', [''Patna'', ''Gaya'', ''Bhagalpur'', ''Muzaffarpur'']),
     (''Chhattisgarh'', [''Raipur'', ''Bhilai'', ''Bilaspur'']),
     (''Goa'', [''Panaji'', ''Margao'', ''Vasco da Gama'']),
     (''Gujarat'', [''Ahmedabad'', ''Surat'', ''Vadodara'', ''Rajkot'', ''Gandhinagar'']),
     (''Haryana'', [''Gurugram'', ''Faridabad'', ''Panipat'', ''Ambala'']),
     (''Himachal Pradesh'', [''Shimla'', ''Manali'', ''Dharamshala'']),
     (''Jharkhand'', [''Ranchi'', ''Jamshedpur'', ''Dhanbad'']),
     (''Karnataka'', [''Bengaluru'', ''Mysuru'', ''Mangaluru'', ''Hubli'', ''Belagavi'']),
     (''Kerala'', [''Thiruvananthapuram'', ''Kochi'', ''Kozhikode'', ''Thrissur'']),
     (''Madhya Pradesh'', [''Indore'', ''Bhopal'', ''Jabalpur'', ''Gwalior'']),
     (''Maharashtra'', [''Mumbai'', ''Pune'', ''Nagpur'', ''Nashik'', ''Thane'']),
     (''Manipur'', [''Imphal'', ''Thoubal'']),
     (''Meghalaya'', [''Shillong'', ''Tura'']),
     (''Mizoram'', [''Aizawl'', ''Lunglei'']),
     (''Nagaland'', [''Dimapur'', ''Kohima'']),
     (''Odisha'', [''Bhubaneswar'', ''Cuttack'', ''Rourkela'', ''Puri'']),
     (''Punjab'', [''Ludhiana'', ''Amritsar'', ''Jalandhar'', ''Patiala'', ''Chandigarh'']),
     (''Rajasthan'', [''Jaipur'', ''Jodhpur'', ''Udaipur'', ''Kota'', ''Ajmer'']),
     (''Sikkim'', [''Gangtok'', ''Namchi'']),
     (''Tamil Nadu'', [''Chennai'', ''Coimbatore'', ''Madurai'', ''Tiruchirappalli'']),
     (''Telangana'', [''Hyderabad'', ''Warangal'', ''Nizamabad'']),
     (''Tripura'', [''Agartala'', ''Dharmanagar'']),
     (''Uttar Pradesh'', [''Lucknow'', ''Kanpur'', ''Varanasi'', ''Agra'', ''Noida'']),
     (''Uttarakhand'', [''Dehradun'', ''Haridwar'', ''Roorkee'', ''Rishikesh'']),
     (''West Bengal'', [''Kolkata'', ''Howrah'', ''Darjeeling'', ''Siliguri'']),
     (''Delhi'', [''New Delhi'', ''Delhi Cantonment'']),
     (''Jammu and Kashmir'', [''Srinagar'', ''Jammu'', ''Anantnag''])]"

text \<open>An exception of the script: its class name and the text \<^verbatim>\<open>str(e)\<close> gives.\<close>

datatype exn = Exn string string

fun exn_text :: "exn \<Rightarrow> string" where
  "exn_text (Exn cls msg) = msg"

text \<open>
  Line 69: \<^verbatim>\<open>states = sorted(list(indian_geography.keys()))\<close>, the options of the State
  select box.
\<close>

definition states :: "string list" where
  "states = sort (map fst indian_geography)"

text \<open>
  Line 74: \<^verbatim>\<open>cities = sorted(indian_geography[selected_state])\<close>, the options of the City
  select box. The subscript raises \<^verbatim>\<open>KeyError\<close> on a key the dictionary lacks; the
  text of a \<^verbatim>\<open>KeyError\<close> is the \<^verbatim>\<open>repr\<close> of the key.
\<close>

definition cities :: "string \<Rightarrow> exn + string list" where
  "cities selected_state =
     (case map_of indian_geography selected_state of
        None \<Rightarrow> Inl (Exn ''KeyError'' ([CHR 0x27] @ selected_state @ [CHR 0x27]))
      | Some cs \<Rightarrow> Inr (sort cs))"

section \<open>Startup: the artifact files\<close>

text \<open>
  Everything the script does to the outside, in the order it does it: the file system
  calls of the startup, the calls into the loaded encoders and the model, and the
  messages it shows. One run of the script is the list of its events. The static layout
  calls (title, dividers, columns, the widgets themselves) are left out.
\<close>

datatype encoder_name = Le_country | Le_state | Le_city | Le_type | Le_condition

text \<open>
  A cell of the one-row data frame: the integer columns and the one float column. A
  finite Python float is modelled by the rational number it denotes.
\<close>

datatype cell = Int_cell int | Float_cell rat

record data_frame =
  columns :: "string list"
  rows :: "cell list list"

datatype event =
    Path_exists string
  | Joblib_load string
  | Transform encoder_name string
  | Predict data_frame
  | St_error string
  | St_warning string
  | St_info string
  | St_subheader string
  | St_metric string string

text \<open>Line 10.\<close>

definition required_files :: "string list" where
  "required_files =
     [''ghormach_model.pkl'', ''le_country.pkl'', ''le_state.pkl'', ''le_city.pkl'',
      ''le_type.pkl'', ''le_condition.pkl'']"

text \<open>Line 13, the f-string.\<close>

definition missing_file_message :: "string \<Rightarrow> string" where
  "missing_file_message file =
     ''Missing file: '' @ file @ ''. Please run `python train_model.py` first.''"

text \<open>
  Lines 11--14: the loop over \<^verbatim>\<open>required_files\<close>. \<^verbatim>\<open>st.stop()\<close> ends the run of the
  script at once; the second component says whether it was reached.
\<close>

fun check_required_files :: "(string \<Rightarrow> bool) \<Rightarrow> string list \<Rightarrow> event list \<times> bool" where
  "check_required_files path_exists [] = ([], False)"
| "check_required_files path_exists (file # files) =
     (if \<not> path_exists file
      then ([Path_exists file, St_error (missing_file_message file)], True)
      else (case check_required_files path_exists files of
              (es, stopped) \<Rightarrow> (Path_exists file # es, stopped)))"

text \<open>Lines 17--22: the six calls of \<^verbatim>\<open>joblib.load\<close>, in the order of the source.\<close>

definition load_artifacts :: "event list" where
  "load_artifacts =
     [Joblib_load ''ghormach_model.pkl'', Joblib_load ''le_country.pkl'',
      Joblib_load ''le_state.pkl'', Joblib_load ''le_city.pkl'',
      Joblib_load ''le_type.pkl'', Joblib_load ''le_condition.pkl'']"

section \<open>The loaded artifacts and the form\<close>

text \<open>
  A loaded encoder is used through two members only: the attribute \<^verbatim>\<open>classes_\<close>
  (the field \<open>classes\<close>: a field name cannot end in an underscore) and the call
  \<^verbatim>\<open>le.transform([label])[0]\<close>, which returns a code or raises. Both are fields, and
  nothing relates them: the theorems hold for whatever object the file held.
\<close>

record label_encoder =
  classes :: "string list"
  transform :: "string \<Rightarrow> exn + int"

text \<open>
  The model is used through \<^verbatim>\<open>model.predict(input_data)[0]\<close> only: a float, or an
  exception.
\<close>

record artifacts =
  model :: "data_frame \<Rightarrow> exn + rat"
  le_country :: label_encoder
  le_state :: label_encoder
  le_city :: label_encoder
  le_type :: label_encoder
  le_condition :: label_encoder

text \<open>
  What the widgets of lines 70--92 returned in this run. (\<^verbatim>\<open>size\<close> of the source is
  \<open>size_sqm\<close> here, \<^const>\<open>size\<close> being a constant of HOL.)
\<close>

record selections =
  selected_state :: string
  selected_city :: string
  year :: int
  prop_type :: string
  size_sqm :: int
  bedrooms :: int
  condition :: string
  distance :: rat

section \<open>The prediction engine\<close>

subsection \<open>Messages\<close>

text \<open>
  The three characters of the source outside ASCII, as their UTF-8 bytes: the warning
  sign with its variation selector, the light bulb and the rupee sign.
\<close>

definition warning_sign :: string where
  "warning_sign = [CHR 0xE2, CHR 0x9A, CHR 0xA0, CHR 0xEF, CHR 0xB8, CHR 0x8F]"

definition light_bulb :: string where
  "light_bulb = [CHR 0xF0, CHR 0x9F, CHR 0x92, CHR 0xA1]"

definition rupee_sign :: string where
  "rupee_sign = [CHR 0xE2, CHR 0x82, CHR 0xB9]"

text \<open>Line 100.\<close>

definition unknown_city_warning :: "string \<Rightarrow> string" where
  "unknown_city_warning city =
     warning_sign @ '' **AI Alert:** We don't have historical housing data for **''
       @ city @ ''** yet!''"

text \<open>Line 101: a string literal with no placeholder.\<close>

definition studied_cities_hint :: string where
  "studied_cities_hint =
     light_bulb @ '' **Try selecting a city the AI has studied:** ''
       @ ''Bengaluru, Mumbai, New Delhi, Chennai, or Hyderabad.''"

text \<open>Line 129: \<^verbatim>\<open>f"Prediction error: {e}"\<close>.\<close>

definition prediction_error_message :: "exn \<Rightarrow> string" where
  "prediction_error_message e = ''Prediction error: '' @ exn_text e"

subsection \<open>The format \<^verbatim>\<open>:,.0f\<close>\<close>

text \<open>
  Python formats a float with no decimals by rounding its exact value to an integer,
  ties going to the even one, and groups the digits in threes with commas. A negative
  value keeps its sign even when it rounds to zero.
\<close>

definition round_half_even :: "rat \<Rightarrow> int" where
  "round_half_even x =
     (let f = \<lfloor>x\<rfloor>; r = x - of_int f
      in if r < 1 / 2 then f else if 1 / 2 < r then f + 1 else if even f then f else f + 1)"

fun digits :: "nat \<Rightarrow> string" where
  "digits n =
     (if n < 10 then [char_of (48 + n)] else digits (n div 10) @ [char_of (48 + n mod 10)])"

fun group3 :: "string \<Rightarrow> string" where
  "group3 (a # b # c # d # ds) = a # b # c # CHR '','' # group3 (d # ds)"
| "group3 ds = ds"

definition format_comma_0f :: "rat \<Rightarrow> string" where
  "format_comma_0f x =
     (if x < 0 then ''-'' else []) @ rev (group3 (rev (digits (nat \<bar>round_half_even x\<bar>))))"

subsection \<open>The body of the button\<close>

text \<open>
  A statement of the \<^verbatim>\<open>try\<close> block: the events it caused, and either the exception it
  raised or its value. \<open>and_then\<close> is sequencing: an exception skips what follows.
\<close>

type_synonym 'a attempt = "event list \<times> (exn + 'a)"

definition and_then :: "'a attempt \<Rightarrow> ('a \<Rightarrow> 'b attempt) \<Rightarrow> 'b attempt" where
  "and_then m f =
     (case m of
        (es, Inl e) \<Rightarrow> (es, Inl e)
      | (es, Inr x) \<Rightarrow> (case f x of (es', r) \<Rightarrow> (es @ es', r)))"

definition call_transform :: "encoder_name \<Rightarrow> label_encoder \<Rightarrow> string \<Rightarrow> int attempt" where
  "call_transform n le label = ([Transform n label], transform le label)"

definition call_predict :: "artifacts \<Rightarrow> data_frame \<Rightarrow> rat attempt" where
  "call_predict a input_data = ([Predict input_data], model a input_data)"

text \<open>Lines 112--113.\<close>

definition input_data :: "selections \<Rightarrow> int \<Rightarrow> int \<Rightarrow> int \<Rightarrow> int \<Rightarrow> int \<Rightarrow> data_frame" where
  "input_data s country_enc state_enc city_enc type_enc condition_enc =
     \<lparr>columns = [''Year'', ''Country_Enc'', ''State_Enc'', ''City_Enc'', ''Type_Enc'',
                 ''Size_sqm'', ''Bedrooms'', ''Condition_Enc'', ''Distance_km''],
      rows = [[Int_cell (year s), Int_cell country_enc, Int_cell state_enc,
               Int_cell city_enc, Int_cell type_enc, Int_cell (size_sqm s),
               Int_cell (bedrooms s), Int_cell condition_enc, Float_cell (distance s)]]\<rparr>"

text \<open>Line 117. The literal \<^verbatim>\<open>86.50\<close> is a binary float exactly: \<open>173 / 2\<close>.\<close>

definition exchange_rate :: rat where
  "exchange_rate = 173 / 2"

text \<open>
  Line 118. The product of two floats is the float nearest to the exact product. That
  rounding is not modelled: the multiplication of floats is the parameter \<open>fmul\<close>, and
  nothing is assumed of it.
\<close>

definition prediction_inr :: "(rat \<Rightarrow> rat \<Rightarrow> rat) \<Rightarrow> rat \<Rightarrow> rat" where
  "prediction_inr fmul prediction_usd = fmul prediction_usd exchange_rate"

text \<open>Lines 120--126.\<close>

definition show_result :: "(rat \<Rightarrow> rat \<Rightarrow> rat) \<Rightarrow> selections \<Rightarrow> rat \<Rightarrow> event list" where
  "show_result fmul s prediction_usd =
     [St_subheader (''Estimated Value in '' @ selected_city s),
      St_metric ''Price in INR''
        (rupee_sign @ format_comma_0f (prediction_inr fmul prediction_usd)),
      St_metric ''Price in USD'' (''$'' @ format_comma_0f prediction_usd)]"

text \<open>Lines 105--126: the \<^verbatim>\<open>try\<close> block.\<close>

definition try_block :: "(rat \<Rightarrow> rat \<Rightarrow> rat) \<Rightarrow> artifacts \<Rightarrow> selections \<Rightarrow> unit attempt" where
  "try_block fmul a s =
     and_then (call_transform Le_country (le_country a) ''India'') (\<lambda>country_enc.
     and_then (call_transform Le_state (le_state a) (selected_state s)) (\<lambda>state_enc.
     and_then (call_transform Le_city (le_city a) (selected_city s)) (\<lambda>city_enc.
     and_then (call_transform Le_type (le_type a) (prop_type s)) (\<lambda>type_enc.
     and_then (call_transform Le_condition (le_condition a) (condition s)) (\<lambda>condition_enc.
     and_then (call_predict a
                 (input_data s country_enc state_enc city_enc type_enc condition_enc))
       (\<lambda>prediction_usd. (show_result fmul s prediction_usd, Inr ())))))))"

text \<open>
  Lines 99--129: what a click on the button does. \<^verbatim>\<open>except Exception as e\<close> catches
  what the block raised and shows it.
\<close>

definition prediction_engine :: "(rat \<Rightarrow> rat \<Rightarrow> rat) \<Rightarrow> artifacts \<Rightarrow> selections \<Rightarrow> event list" where
  "prediction_engine fmul a s =
     (if selected_city s \<notin> set (classes (le_city a))
      then [St_warning (unknown_city_warning (selected_city s)), St_info studied_cities_hint]
      else (case try_block fmul a s of
              (es, Inl e) \<Rightarrow> es @ [St_error (prediction_error_message e)]
            | (es, Inr u) \<Rightarrow> es))"

text \<open>
  One run of the script. \<open>path_exists\<close> is \<^verbatim>\<open>os.path.exists\<close>; \<open>a\<close> is what the six
  loads returned; \<open>s\<close> is what the widgets returned; \<open>clicked\<close> is the value of
  \<^verbatim>\<open>st.button\<close>.
\<close>

definition script ::
    "(string \<Rightarrow> bool) \<Rightarrow> (rat \<Rightarrow> rat \<Rightarrow> rat) \<Rightarrow> artifacts \<Rightarrow> selections \<Rightarrow> bool \<Rightarrow> event list" where
  "script path_exists fmul a s clicked =
     (case check_required_files path_exists required_files of
        (es, True) \<Rightarrow> es
      | (es, False) \<Rightarrow>
          es @ load_artifacts @ (if clicked then prediction_engine fmul a s else []))"

subsection \<open>The engine over calls with more than one possible result\<close>

text \<open>
  In \<^typ>\<open>artifacts\<close> a call is a function of its argument. A loaded object may instead
  keep state or draw random numbers, and then the same call can return different results.
  To speak of such objects, a call is here a relation between its argument and a result it
  may return: \<open>may_transform w n label r\<close> says that \<^verbatim>\<open>transform([label])[0]\<close> of the
  encoder \<open>n\<close> may return (or raise) \<open>r\<close>, and \<open>may_predict w df r\<close> the same of
  \<^verbatim>\<open>model.predict(df)[0]\<close>.
\<close>

record loaded =
  city_classes :: "string list"
  may_transform :: "encoder_name \<Rightarrow> string \<Rightarrow> exn + int \<Rightarrow> bool"
  may_predict :: "data_frame \<Rightarrow> exn + rat \<Rightarrow> bool"



text \<open>
  Lines 99--129 once more, as the relation between an invocation and the events it may
  cause: one rule for each way through the code. Rule \<open>unknown_city\<close> is the \<^verbatim>\<open>if\<close>
  branch; each of the next six is the \<^verbatim>\<open>try\<close> block left at one call by an exception,
  the calls before it having returned; \<open>shown\<close> is the block run to its end.
\<close>

inductive may_run ::
    "(rat \<Rightarrow> rat \<Rightarrow> rat) \<Rightarrow> loaded \<Rightarrow> selections \<Rightarrow> event list \<Rightarrow> bool"
  for fmul :: "rat \<Rightarrow> rat \<Rightarrow> rat" and w :: loaded and s :: selections where
  unknown_city:
    "selected_city s \<notin> set (city_classes w) \<Longrightarrow>
     may_run fmul w s
       [St_warning (unknown_city_warning (selected_city s)), St_info studied_cities_hint]"
| country_raises:
    "selected_city s \<in> set (city_classes w) \<Longrightarrow>
     may_transform w Le_country ''India'' (Inl e) \<Longrightarrow>
     may_run fmul w s
       [Transform Le_country ''India'', St_error (prediction_error_message e)]"
| state_raises:
    "selected_city s \<in> set (city_classes w) \<Longrightarrow>
     may_transform w Le_country ''India'' (Inr country_enc) \<Longrightarrow>
     may_transform w Le_state (selected_state s) (Inl e) \<Longrightarrow>
     may_run fmul w s
       [Transform Le_country ''India'', Transform Le_state (selected_state s),
        St_error (prediction_error_message e)]"
| city_raises:
    "selected_city s \<in> set (city_classes w) \<Longrightarrow>
     may_transform w Le_country ''India'' (Inr country_enc) \<Longrightarrow>
     may_transform w Le_state (selected_state s) (Inr state_enc) \<Longrightarrow>
     may_transform w Le_city (selected_city s) (Inl e) \<Longrightarrow>
     may_run fmul w s
       [Transform Le_country ''India'', Transform Le_state (selected_state s),
        Transform Le_city (selected_city s), St_error (prediction_error_message e)]"
| type_raises:
    "selected_city s \<in> set (city_classes w) \<Longrightarrow>
     may_transform w Le_country ''India'' (Inr country_enc) \<Longrightarrow>
     may_transform w Le_state (selected_state s) (Inr state_enc) \<Longrightarrow>
     may_transform w Le_city (selected_city s) (Inr city_enc) \<Longrightarrow>
     may_transform w Le_type (prop_type s) (Inl e) \<Longrightarrow>
     may_run fmul w s
       [Transform Le_country ''India'', Transform Le_state (selected_state s),
        Transform Le_city (selected_city s), Transform Le_type (prop_type s),
        St_error (prediction_error_message e)]"
| condition_raises:
    "selected_city s \<in> set (city_classes w) \<Longrightarrow>
     may_transform w Le_country ''India'' (Inr country_enc) \<Longrightarrow>
     may_transform w Le_state (selected_state s) (Inr state_enc) \<Longrightarrow>
     may_transform w Le_city (selected_city s) (Inr city_enc) \<Longrightarrow>
     may_transform w Le_type (prop_type s) (Inr type_enc) \<Longrightarrow>
     may_transform w Le_condition (condition s) (Inl e) \<Longrightarrow>
     may_run fmul w s
       [Transform Le_country ''India'', Transform Le_state (selected_state s),
        Transform Le_city (selected_city s), Transform Le_type (prop_type s),
        Transform Le_condition (condition s), St_error (prediction_error_message e)]"
| predict_raises:
    "selected_city s \<in> set (city_classes w) \<Longrightarrow>
     may_transform w Le_country ''India'' (Inr country_enc) \<Longrightarrow>
     may_transform w Le_state (selected_state s) (Inr state_enc) \<Longrightarrow>
     may_transform w Le_city (selected_city s) (Inr city_enc) \<Longrightarrow>
     may_transform w Le_type (prop_type s) (Inr type_enc) \<Longrightarrow>
     may_transform w Le_condition (condition s) (Inr condition_enc) \<Longrightarrow>
     may_predict w (input_data s country_enc state_enc city_enc type_enc condition_enc)
       (Inl e) \<Longrightarrow>
     may_run fmul w s
       [Transform Le_country ''India'', Transform Le_state (selected_state s),
        Transform Le_city (selected_city s), Transform Le_type (prop_type s),
        Transform Le_condition (condition s),
        Predict (input_data s country_enc state_enc city_enc type_enc condition_enc),
        St_error (prediction_error_message e)]"
| shown:
    "selected_city s \<in> set (city_classes w) \<Longrightarrow>
     may_transform w Le_country ''India'' (Inr country_enc) \<Longrightarrow>
     may_transform w Le_state (selected_state s) (Inr state_enc) \<Longrightarrow>
     may_transform w Le_city (selected_city s) (Inr city_enc) \<Longrightarrow>
     may_transform w Le_type (prop_type s) (Inr type_enc) \<Longrightarrow>
     may_transform w Le_condition (condition s) (Inr condition_enc) \<Longrightarrow>
     may_predict w (input_data s country_enc state_enc city_enc type_enc condition_enc)
       (Inr prediction_usd) \<Longrightarrow>
     may_run fmul w s
       ([Transform Le_country ''India'', Transform Le_state (selected_state s),
         Transform Le_city (selected_city s), Transform Le_type (prop_type s),
         Transform Le_condition (condition s),
         Predict (input_data s country_enc state_enc city_enc type_enc condition_enc)]
        @ show_result fmul s prediction_usd)"

section \<open>Concrete artifacts and inputs\<close>

text \<open>
  A fitted scikit-learn \<^verbatim>\<open>LabelEncoder\<close>, for concrete artifacts: the code of a label
  is its position in \<^verbatim>\<open>classes_\<close>, and an unseen label raises \<^verbatim>\<open>ValueError\<close>.
\<close>

fun position :: "string list \<Rightarrow> string \<Rightarrow> int option" where
  "position [] label = None"
| "position (c # cs) label =
     (if c = label then Some 0 else map_option (\<lambda>i. i + 1) (position cs label))"

definition fitted :: "string list \<Rightarrow> label_encoder" where
  "fitted cs =
     \<lparr>classes = cs,
      transform = (\<lambda>label. case position cs label of
          None \<Rightarrow> Inl (Exn ''ValueError''
                    (''y contains previously unseen labels: '' @ [CHR 0x27] @ label @ [CHR 0x27]))
        | Some i \<Rightarrow> Inr i)\<rparr>"

text \<open>
  A stub model. It raises on a year before 2000; otherwise its value is ten times the
  sum of the other eight features, plus one half, so that the value tells which row the
  model was given.
\<close>

fun cell_value :: "cell \<Rightarrow> rat" where
  "cell_value (Int_cell i) = of_int i"
| "cell_value (Float_cell x) = x"

definition stub_predict :: "data_frame \<Rightarrow> exn + rat" where
  "stub_predict df =
     (case rows df of
        [y # rest] \<Rightarrow>
          (if cell_value y < 2000 then Inl (Exn ''ValueError'' ''year out of range'')
           else Inr (10 * sum_list (map cell_value rest) + 1 / 2))
      | _ \<Rightarrow> Inl (Exn ''ValueError'' ''bad shape''))"

definition stub_artifacts :: artifacts where
  "stub_artifacts =
     \<lparr>model = stub_predict,
      le_country = fitted [''Bangladesh'', ''Bhutan'', ''China'', ''France'', ''Germany'', ''India''],
      le_state = fitted [''Delhi'', ''Maharashtra'', ''Sikkim''],
      le_city = fitted [''Mumbai'', ''New Delhi'', ''Pune''],
      le_type = fitted [''Apartment'', ''House'', ''Plot'', ''Villa''],
      le_condition = fitted [''Excellent'', ''Fair'', ''Good'', ''New'', ''Old'']\<rparr>"

text \<open>Scenario A of the specification, and scenario B.\<close>

definition mumbai :: selections where
  "mumbai =
     \<lparr>selected_state = ''Maharashtra'', selected_city = ''Mumbai'', year = 2024,
      prop_type = ''Apartment'', size_sqm = 100, bedrooms = 3, condition = ''Excellent'',
      distance = 2\<rparr>"

definition gangtok :: selections where
  "gangtok =
     \<lparr>selected_state = ''Sikkim'', selected_city = ''Gangtok'', year = 2024,
      prop_type = ''Apartment'', size_sqm = 100, bedrooms = 3, condition = ''Excellent'',
      distance = 2\<rparr>"

text \<open>
  Selections whose nine features are pairwise different numbers under
  \<open>stub_artifacts\<close>: 2031, 5, 2, 1, 3, 250, 6, 4 and 7.5.
\<close>

definition sentinel :: selections where
  "sentinel =
     \<lparr>selected_state = ''Sikkim'', selected_city = ''New Delhi'', year = 2031,
      prop_type = ''Villa'', size_sqm = 250, bedrooms = 6, condition = ''Old'',
      distance = 15 / 2\<rparr>"

text \<open>An object whose \<^verbatim>\<open>classes_\<close> holds a label that its \<^verbatim>\<open>transform\<close> rejects.\<close>

definition broken_encoder :: label_encoder where
  "broken_encoder =
     \<lparr>classes = [''Mumbai''],
      transform = (\<lambda>label. Inl (Exn ''AttributeError'' ''no mapping''))\<rparr>"


section \<open>Reading a formatted number\<close>

text \<open>
  What a text in the format \<^verbatim>\<open>:,.0f\<close> denotes: the commas dropped, the digits read in
  base ten, the sign applied. It is used to state what the shown prices are.
\<close>

definition read_nat :: "string \<Rightarrow> nat" where
  "read_nat ds = foldl (\<lambda>n c. 10 * n + (of_char c - 48)) 0 ds"

fun read_int :: "string \<Rightarrow> int" where
  "read_int (c # cs) =
     (if c = CHR ''-'' then - int (read_nat (filter (\<lambda>d. d \<noteq> CHR '','') cs))
      else int (read_nat (filter (\<lambda>d. d \<noteq> CHR '','') (c # cs))))"
| "read_int [] = 0"

section \<open>The catalog: what the two select boxes offer\<close>

lemma indian_geography_keys_distinct: "distinct (map fst indian_geography)"
  unfolding indian_geography_def by simp

lemma indian_geography_lists_nonempty: "\<forall>(region, cs) \<in> set indian_geography. cs \<noteq> []"
  unfolding indian_geography_def by simp

lemma indian_geography_cities_distinct: "distinct (concat (map snd indian_geography))"
  unfolding indian_geography_def by simp

lemma cities_of_key:
  assumes "region \<in> set (map fst indian_geography)"
  shows "\<exists>cs. (region, cs) \<in> set indian_geography \<and> cities region = Inr (sort cs)"
proof -
  from assms obtain cs where "map_of indian_geography region = Some cs"
    by (metis map_of_eq_None_iff not_None_eq set_map)
  moreover from this have "(region, cs) \<in> set indian_geography"
    by (rule map_of_SomeD)
  ultimately show ?thesis
    by (auto simp: cities_def)
qed

text \<open>
  Claim C6. The list of states offered is sorted and holds the keys of the dictionary,
  each once. For every state of the dictionary the list of cities offered for it exists
  (no \<^verbatim>\<open>KeyError\<close>), is that state's own list of the dictionary sorted ascending, in the
  order Python gives to strings, with the same cities, and is not empty.
\<close>

theorem offered_lists_sorted_nonempty:
  "sorted states \<and> set states = set (map fst indian_geography) \<and>
   length states = length indian_geography \<and>
   (\<forall>region \<in> set (map fst indian_geography).
      \<exists>cs. cities region = Inr cs \<and> cs \<noteq> [] \<and> sorted cs) \<and>
   (\<forall>(region, cs) \<in> set indian_geography.
      cities region = Inr (sort cs) \<and> set (sort cs) = set cs \<and>
      length (sort cs) = length cs)"
proof (intro conjI ballI)
  show "sorted states"
    by (simp add: states_def)
  show "set states = set (map fst indian_geography)"
    by (simp add: states_def)
  show "length states = length indian_geography"
    by (simp add: states_def)
next
  fix region assume "region \<in> set (map fst indian_geography)"
  then obtain cs where cs: "(region, cs) \<in> set indian_geography" "cities region = Inr (sort cs)"
    using cities_of_key by blast
  from cs(1) indian_geography_lists_nonempty have "cs \<noteq> []"
    by blast
  then have "sort cs \<noteq> []"
    by (metis length_sort length_0_conv)
  with cs(2) show "\<exists>cs. cities region = Inr cs \<and> cs \<noteq> [] \<and> sorted cs"
    by simp
next
  fix entry assume e: "entry \<in> set indian_geography"
  obtain region cs where rc: "entry = (region, cs)"
    by (cases entry)
  with e have "map_of indian_geography region = Some cs"
    using indian_geography_keys_distinct by (simp add: map_of_is_SomeI)
  then have "cities region = Inr (sort cs)"
    by (simp add: cities_def)
  with rc show "case entry of (region, cs) \<Rightarrow>
      cities region = Inr (sort cs) \<and> set (sort cs) = set cs \<and>
      length (sort cs) = length cs"
    by simp
qed

theorem offered_lists_sorted_nonempty_witness:
  "(''Goa'', [''Panaji'', ''Margao'', ''Vasco da Gama'']) \<in> set indian_geography \<and>
   ''Goa'' \<in> set (map fst indian_geography) \<and> ''Goa'' \<in> set states \<and>
   sort [''Panaji'', ''Margao'', ''Vasco da Gama''] = [''Margao'', ''Panaji'', ''Vasco da Gama''] \<and>
   cities ''Goa'' = Inr [''Margao'', ''Panaji'', ''Vasco da Gama''] \<and>
   sorted states \<and> length states = 30"
proof -
  have g: "(''Goa'', [''Panaji'', ''Margao'', ''Vasco da Gama'']) \<in> set indian_geography"
    by (simp add: indian_geography_def)
  have k: "''Goa'' \<in> set (map fst indian_geography)"
    using g by force
  have s: "sort [''Panaji'', ''Margao'', ''Vasco da Gama''] = [''Margao'', ''Panaji'', ''Vasco da Gama'']"
    by code_simp
  have l: "length indian_geography = 30"
    by (simp add: indian_geography_def)
  note w = offered_lists_sorted_nonempty
  from w g have "cities ''Goa'' = Inr (sort [''Panaji'', ''Margao'', ''Vasco da Gama''])"
    by blast
  with s have c: "cities ''Goa'' = Inr [''Margao'', ''Panaji'', ''Vasco da Gama'']"
    by simp
  from w k have m: "''Goa'' \<in> set states"
    by simp
  from w l have n: "sorted states" "length states = 30"
    by simp_all
  from g k m s c n show ?thesis
    by blast
qed

lemma disjoint_lists:
  "distinct (concat (map snd ps)) \<Longrightarrow> (r1, cs1) \<in> set ps \<Longrightarrow> (r2, cs2) \<in> set ps \<Longrightarrow>
   r1 \<noteq> r2 \<Longrightarrow> set cs1 \<inter> set cs2 = {}"
  by (induction ps) (auto, (force+))

text \<open>
  Claim C7. No city name stands in the lists of two different states of the dictionary:
  the lists of two different states have no name in common.
\<close>

theorem locality_in_one_region:
  "(r1, cs1) \<in> set indian_geography \<Longrightarrow> (r2, cs2) \<in> set indian_geography \<Longrightarrow>
   r1 \<noteq> r2 \<Longrightarrow> set cs1 \<inter> set cs2 = {}"
  using indian_geography_cities_distinct by (rule disjoint_lists)

theorem locality_in_one_region_witness:
  "(''Goa'', [''Panaji'', ''Margao'', ''Vasco da Gama'']) \<in> set indian_geography \<and>
   (''Delhi'', [''New Delhi'', ''Delhi Cantonment'']) \<in> set indian_geography \<and>
   ''Goa'' \<noteq> ''Delhi'' \<and>
   set [''Panaji'', ''Margao'', ''Vasco da Gama''] \<inter> set [''New Delhi'', ''Delhi Cantonment''] = {}"
proof -
  have g: "(''Goa'', [''Panaji'', ''Margao'', ''Vasco da Gama'']) \<in> set indian_geography"
    by (simp add: indian_geography_def)
  have d: "(''Delhi'', [''New Delhi'', ''Delhi Cantonment'']) \<in> set indian_geography"
    by (simp add: indian_geography_def)
  have n: "''Goa'' \<noteq> ''Delhi''"
    by simp
  from g d n locality_in_one_region [OF g d n] show ?thesis
    by blast
qed

section \<open>The prediction engine: the guard on the city\<close>

lemma and_then_raises [simp]: "and_then (es, Inl e) f = (es, Inl e)"
  by (simp add: and_then_def)

lemma and_then_returns [simp]: "and_then (es, Inr x) f = (es @ fst (f x), snd (f x))"
  by (simp add: and_then_def split: prod.splits)

text \<open>
  Claim C1. When the selected city is not among \<^verbatim>\<open>le_city.classes_\<close>, a click shows the
  warning that names the city and the hint, and nothing else: no call of any
  \<^verbatim>\<open>transform\<close>, no call of \<^verbatim>\<open>predict\<close>, and no error message.
\<close>

theorem unknown_city_advisory:
  assumes "selected_city s \<notin> set (classes (le_city a))"
  shows "prediction_engine fmul a s =
           [St_warning (warning_sign @ '' **AI Alert:** We don't have historical housing data for **''
                          @ selected_city s @ ''** yet!''),
            St_info studied_cities_hint]
         \<and> (\<forall>n label. Transform n label \<notin> set (prediction_engine fmul a s))
         \<and> (\<forall>df. Predict df \<notin> set (prediction_engine fmul a s))
         \<and> (\<forall>m. St_error m \<notin> set (prediction_engine fmul a s))"
  using assms by (simp add: prediction_engine_def unknown_city_warning_def)

theorem unknown_city_advisory_witness:
  "selected_city gangtok \<notin> set (classes (le_city stub_artifacts)) \<and>
   prediction_engine (*) stub_artifacts gangtok =
     [St_warning (warning_sign @ '' **AI Alert:** We don't have historical housing data for **Gangtok** yet!''),
      St_info studied_cities_hint]"
proof -
  have h: "selected_city gangtok \<notin> set (classes (le_city stub_artifacts))"
    by (simp add: gangtok_def stub_artifacts_def fitted_def)
  have c: "selected_city gangtok = ''Gangtok''"
    by (simp add: gangtok_def)
  from h unknown_city_advisory [OF h, of "(*)"] c show ?thesis
    by simp
qed

section \<open>The row given to the model\<close>

text \<open>
  Claim C2. Whenever the model is called, the data frame it is given has the nine columns
  \<^verbatim>\<open>Year, Country_Enc, State_Enc, City_Enc, Type_Enc, Size_sqm, Bedrooms, Condition_Enc,
  Distance_km\<close> in this order and one row, whose cells are, in the same order, the year
  selected, the codes the country, state, city, type and condition encoders returned for
  \<^verbatim>\<open>India\<close> and for the selections, the size and the bedrooms selected between them,
  and the distance selected last.
\<close>

theorem feature_vector_order:
  assumes "Predict df \<in> set (prediction_engine fmul a s)"
  shows "\<exists>country_enc state_enc city_enc type_enc condition_enc.
           transform (le_country a) ''India'' = Inr country_enc \<and>
           transform (le_state a) (selected_state s) = Inr state_enc \<and>
           transform (le_city a) (selected_city s) = Inr city_enc \<and>
           transform (le_type a) (prop_type s) = Inr type_enc \<and>
           transform (le_condition a) (condition s) = Inr condition_enc \<and>
           columns df = [''Year'', ''Country_Enc'', ''State_Enc'', ''City_Enc'', ''Type_Enc'',
                         ''Size_sqm'', ''Bedrooms'', ''Condition_Enc'', ''Distance_km''] \<and>
           rows df = [[Int_cell (year s), Int_cell country_enc, Int_cell state_enc,
                       Int_cell city_enc, Int_cell type_enc, Int_cell (size_sqm s),
                       Int_cell (bedrooms s), Int_cell condition_enc,
                       Float_cell (distance s)]]"
  using assms
  by (auto simp: prediction_engine_def try_block_def call_transform_def call_predict_def
      and_then_def input_data_def show_result_def
      split: if_splits sum.splits prod.splits)

theorem feature_vector_order_witness:
  "Predict \<lparr>columns = [''Year'', ''Country_Enc'', ''State_Enc'', ''City_Enc'', ''Type_Enc'',
                        ''Size_sqm'', ''Bedrooms'', ''Condition_Enc'', ''Distance_km''],
            rows = [[Int_cell 2031, Int_cell 5, Int_cell 2, Int_cell 1, Int_cell 3,
                     Int_cell 250, Int_cell 6, Int_cell 4, Float_cell (15 / 2)]]\<rparr>
     \<in> set (prediction_engine (*) stub_artifacts sentinel)"
proof -
  define df where "df = input_data sentinel 5 2 1 3 4"
  have p: "Predict df \<in> set (prediction_engine (*) stub_artifacts sentinel)"
    by (simp add: df_def prediction_engine_def try_block_def call_transform_def
        call_predict_def stub_artifacts_def sentinel_def fitted_def stub_predict_def
        input_data_def)
  have t: "transform (le_country stub_artifacts) ''India'' = Inr 5"
    "transform (le_state stub_artifacts) (selected_state sentinel) = Inr 2"
    "transform (le_city stub_artifacts) (selected_city sentinel) = Inr 1"
    "transform (le_type stub_artifacts) (prop_type sentinel) = Inr 3"
    "transform (le_condition stub_artifacts) (condition sentinel) = Inr 4"
    by (simp_all add: stub_artifacts_def sentinel_def fitted_def)
  have v: "year sentinel = 2031" "size_sqm sentinel = 250" "bedrooms sentinel = 6"
    "distance sentinel = 15 / 2"
    by (simp_all add: sentinel_def)
  from feature_vector_order [OF p] obtain c r l ty k where
    e: "transform (le_country stub_artifacts) ''India'' = Inr c"
       "transform (le_state stub_artifacts) (selected_state sentinel) = Inr r"
       "transform (le_city stub_artifacts) (selected_city sentinel) = Inr l"
       "transform (le_type stub_artifacts) (prop_type sentinel) = Inr ty"
       "transform (le_condition stub_artifacts) (condition sentinel) = Inr k"
    and cols: "columns df = [''Year'', ''Country_Enc'', ''State_Enc'', ''City_Enc'', ''Type_Enc'',
                         ''Size_sqm'', ''Bedrooms'', ''Condition_Enc'', ''Distance_km'']"
    and rws: "rows df = [[Int_cell (year sentinel), Int_cell c, Int_cell r,
                       Int_cell l, Int_cell ty, Int_cell (size_sqm sentinel),
                       Int_cell (bedrooms sentinel), Int_cell k,
                       Float_cell (distance sentinel)]]"
    by blast
  from e t have "c = 5" "r = 2" "l = 1" "ty = 3" "k = 4"
    by simp_all
  with rws v have "rows df = [[Int_cell 2031, Int_cell 5, Int_cell 2, Int_cell 1, Int_cell 3,
                     Int_cell 250, Int_cell 6, Int_cell 4, Float_cell (15 / 2)]]"
    by simp
  with cols have "df = \<lparr>columns = [''Year'', ''Country_Enc'', ''State_Enc'', ''City_Enc'', ''Type_Enc'',
                        ''Size_sqm'', ''Bedrooms'', ''Condition_Enc'', ''Distance_km''],
            rows = [[Int_cell 2031, Int_cell 5, Int_cell 2, Int_cell 1, Int_cell 3,
                     Int_cell 250, Int_cell 6, Int_cell 4, Float_cell (15 / 2)]]\<rparr>"
    by (cases df) simp
  with p show ?thesis
    by simp
qed

section \<open>The hint of the advisory\<close>

text \<open>
  Claim C9. In the branch of the unknown city the one \<^verbatim>\<open>st.info\<close> message is a fixed
  text that lists Bengaluru, Mumbai, New Delhi, Chennai and Hyderabad. It is the same for
  every selection and for every loaded city encoder: it is not computed from the selected
  state nor from \<^verbatim>\<open>le_city.classes_\<close>, so a city it lists need not be one the encoder
  knows.
\<close>

theorem advisory_suggestions_fixed:
  assumes "selected_city s \<notin> set (classes (le_city a))"
  shows "filter (\<lambda>ev. \<exists>m. ev = St_info m) (prediction_engine fmul a s) =
           [St_info (light_bulb @ '' **Try selecting a city the AI has studied:** Bengaluru, Mumbai, New Delhi, Chennai, or Hyderabad.'')]"
  using assms by (simp add: prediction_engine_def studied_cities_hint_def)

theorem advisory_suggestions_fixed_witness:
  "selected_city gangtok \<notin> set (classes (le_city stub_artifacts)) \<and>
   selected_city mumbai \<notin> set (classes (le_city (stub_artifacts\<lparr>le_city := fitted []\<rparr>))) \<and>
   ''Bengaluru'' \<notin> set (classes (le_city stub_artifacts)) \<and>
   ''Mumbai'' \<in> set (classes (le_city stub_artifacts)) \<and>
   filter (\<lambda>ev. \<exists>m. ev = St_info m) (prediction_engine (*) stub_artifacts gangtok) =
     [St_info (light_bulb @ '' **Try selecting a city the AI has studied:** Bengaluru, Mumbai, New Delhi, Chennai, or Hyderabad.'')] \<and>
   filter (\<lambda>ev. \<exists>m. ev = St_info m)
       (prediction_engine (*) (stub_artifacts\<lparr>le_city := fitted []\<rparr>) mumbai) =
     [St_info (light_bulb @ '' **Try selecting a city the AI has studied:** Bengaluru, Mumbai, New Delhi, Chennai, or Hyderabad.'')]"
proof -
  have g: "selected_city gangtok \<notin> set (classes (le_city stub_artifacts))"
    by (simp add: gangtok_def stub_artifacts_def fitted_def)
  have m: "selected_city mumbai \<notin> set (classes (le_city (stub_artifacts\<lparr>le_city := fitted []\<rparr>)))"
    by (simp add: fitted_def)
  have k: "''Bengaluru'' \<notin> set (classes (le_city stub_artifacts))"
    "''Mumbai'' \<in> set (classes (le_city stub_artifacts))"
    by (simp_all add: stub_artifacts_def fitted_def)
  from g m k advisory_suggestions_fixed [OF g, of "(*)"] advisory_suggestions_fixed [OF m, of "(*)"]
  show ?thesis
    by blast
qed

section \<open>Determinism\<close>





section \<open>Failures behind the guard\<close>

text \<open>
  Claim C4. Once the guard on the city has passed, whichever call of the \<^verbatim>\<open>try\<close> block
  raises first (the \<^verbatim>\<open>transform\<close> of the country, state, city, type or condition encoder,
  or \<^verbatim>\<open>predict\<close>), the calls before it having returned, the click ends with one
  \<^verbatim>\<open>st.error\<close> message, \<^verbatim>\<open>Prediction error:\<close> followed by the text of the exception, and
  no later call is made. The engine returns its events in every case: no exception leaves
  it. Exceptions are those \<^verbatim>\<open>except Exception\<close> catches; \<^verbatim>\<open>KeyboardInterrupt\<close> and
  \<^verbatim>\<open>SystemExit\<close> are not modelled.
\<close>

theorem failures_shown_as_prediction_error:
  assumes "selected_city s \<in> set (classes (le_city a))"
  shows
    "(transform (le_country a) ''India'' = Inl e \<longrightarrow>
        prediction_engine fmul a s =
          [Transform Le_country ''India'', St_error (''Prediction error: '' @ exn_text e)])
     \<and> (transform (le_country a) ''India'' = Inr country_enc \<and>
        transform (le_state a) (selected_state s) = Inl e \<longrightarrow>
        prediction_engine fmul a s =
          [Transform Le_country ''India'', Transform Le_state (selected_state s),
           St_error (''Prediction error: '' @ exn_text e)])
     \<and> (transform (le_country a) ''India'' = Inr country_enc \<and>
        transform (le_state a) (selected_state s) = Inr state_enc \<and>
        transform (le_city a) (selected_city s) = Inl e \<longrightarrow>
        prediction_engine fmul a s =
          [Transform Le_country ''India'', Transform Le_state (selected_state s),
           Transform Le_city (selected_city s),
           St_error (''Prediction error: '' @ exn_text e)])
     \<and> (transform (le_country a) ''India'' = Inr country_enc \<and>
        transform (le_state a) (selected_state s) = Inr state_enc \<and>
        transform (le_city a) (selected_city s) = Inr city_enc \<and>
        transform (le_type a) (prop_type s) = Inl e \<longrightarrow>
        prediction_engine fmul a s =
          [Transform Le_country ''India'', Transform Le_state (selected_state s),
           Transform Le_city (selected_city s), Transform Le_type (prop_type s),
           St_error (''Prediction error: '' @ exn_text e)])
     \<and> (transform (le_country a) ''India'' = Inr country_enc \<and>
        transform (le_state a) (selected_state s) = Inr state_enc \<and>
        transform (le_city a) (selected_city s) = Inr city_enc \<and>
        transform (le_type a) (prop_type s) = Inr type_enc \<and>
        transform (le_condition a) (condition s) = Inl e \<longrightarrow>
        prediction_engine fmul a s =
          [Transform Le_country ''India'', Transform Le_state (selected_state s),
           Transform Le_city (selected_city s), Transform Le_type (prop_type s),
           Transform Le_condition (condition s),
           St_error (''Prediction error: '' @ exn_text e)])
     \<and> (transform (le_country a) ''India'' = Inr country_enc \<and>
        transform (le_state a) (selected_state s) = Inr state_enc \<and>
        transform (le_city a) (selected_city s) = Inr city_enc \<and>
        transform (le_type a) (prop_type s) = Inr type_enc \<and>
        transform (le_condition a) (condition s) = Inr condition_enc \<and>
        model a (input_data s country_enc state_enc city_enc type_enc condition_enc) = Inl e \<longrightarrow>
        prediction_engine fmul a s =
          [Transform Le_country ''India'', Transform Le_state (selected_state s),
           Transform Le_city (selected_city s), Transform Le_type (prop_type s),
           Transform Le_condition (condition s),
           Predict (input_data s country_enc state_enc city_enc type_enc condition_enc),
           St_error (''Prediction error: '' @ exn_text e)])"
  using assms
  by (simp add: prediction_engine_def try_block_def call_transform_def call_predict_def
      prediction_error_message_def)

theorem failures_shown_as_prediction_error_witness:
  "prediction_engine (*) (stub_artifacts\<lparr>le_country := fitted [''Nepal'']\<rparr>) mumbai =
     [Transform Le_country ''India'',
      St_error (''Prediction error: y contains previously unseen labels: ''
                  @ [CHR 0x27] @ ''India'' @ [CHR 0x27])] \<and>
   prediction_engine (*) stub_artifacts (mumbai\<lparr>selected_state := ''Goa''\<rparr>) =
     [Transform Le_country ''India'', Transform Le_state ''Goa'',
      St_error (''Prediction error: y contains previously unseen labels: ''
                  @ [CHR 0x27] @ ''Goa'' @ [CHR 0x27])] \<and>
   prediction_engine (*) (stub_artifacts\<lparr>le_city := broken_encoder\<rparr>) mumbai =
     [Transform Le_country ''India'', Transform Le_state ''Maharashtra'',
      Transform Le_city ''Mumbai'', St_error ''Prediction error: no mapping''] \<and>
   prediction_engine (*) stub_artifacts (mumbai\<lparr>prop_type := ''Castle''\<rparr>) =
     [Transform Le_country ''India'', Transform Le_state ''Maharashtra'',
      Transform Le_city ''Mumbai'', Transform Le_type ''Castle'',
      St_error (''Prediction error: y contains previously unseen labels: ''
                  @ [CHR 0x27] @ ''Castle'' @ [CHR 0x27])] \<and>
   prediction_engine (*) stub_artifacts (mumbai\<lparr>condition := ''Ruined''\<rparr>) =
     [Transform Le_country ''India'', Transform Le_state ''Maharashtra'',
      Transform Le_city ''Mumbai'', Transform Le_type ''Apartment'',
      Transform Le_condition ''Ruined'',
      St_error (''Prediction error: y contains previously unseen labels: ''
                  @ [CHR 0x27] @ ''Ruined'' @ [CHR 0x27])] \<and>
   prediction_engine (*) stub_artifacts (mumbai\<lparr>year := 1999\<rparr>) =
     [Transform Le_country ''India'', Transform Le_state ''Maharashtra'',
      Transform Le_city ''Mumbai'', Transform Le_type ''Apartment'',
      Transform Le_condition ''Excellent'',
      Predict (input_data (mumbai\<lparr>year := 1999\<rparr>) 5 1 0 0 0),
      St_error ''Prediction error: year out of range'']"
proof -
  note defs = stub_artifacts_def mumbai_def fitted_def broken_encoder_def
  have 1: "prediction_engine (*) (stub_artifacts\<lparr>le_country := fitted [''Nepal'']\<rparr>) mumbai =
     [Transform Le_country ''India'',
      St_error (''Prediction error: y contains previously unseen labels: ''
                  @ [CHR 0x27] @ ''India'' @ [CHR 0x27])]"
  proof -
    have k: "selected_city mumbai
               \<in> set (classes (le_city (stub_artifacts\<lparr>le_country := fitted [''Nepal'']\<rparr>)))"
      by (simp add: defs)
    have h: "transform (le_country (stub_artifacts\<lparr>le_country := fitted [''Nepal'']\<rparr>)) ''India''
               = Inl (Exn ''ValueError'' (''y contains previously unseen labels: ''
                        @ [CHR 0x27] @ ''India'' @ [CHR 0x27]))"
      by (simp add: defs)
    from failures_shown_as_prediction_error [OF k, THEN conjunct1, THEN mp, OF h]
    show ?thesis by simp
  qed
  have 2: "prediction_engine (*) stub_artifacts (mumbai\<lparr>selected_state := ''Goa''\<rparr>) =
     [Transform Le_country ''India'', Transform Le_state ''Goa'',
      St_error (''Prediction error: y contains previously unseen labels: ''
                  @ [CHR 0x27] @ ''Goa'' @ [CHR 0x27])]"
  proof -
    let ?s = "mumbai\<lparr>selected_state := ''Goa''\<rparr>"
    have k: "selected_city ?s \<in> set (classes (le_city stub_artifacts))"
      by (simp add: defs)
    have h: "transform (le_country stub_artifacts) ''India'' = Inr 5 \<and>
             transform (le_state stub_artifacts) (selected_state ?s)
               = Inl (Exn ''ValueError'' (''y contains previously unseen labels: ''
                        @ [CHR 0x27] @ ''Goa'' @ [CHR 0x27]))"
      by (simp add: defs)
    from failures_shown_as_prediction_error
           [OF k, THEN conjunct2, THEN conjunct1, THEN mp, OF h]
    show ?thesis by simp
  qed
  have 3: "prediction_engine (*) (stub_artifacts\<lparr>le_city := broken_encoder\<rparr>) mumbai =
     [Transform Le_country ''India'', Transform Le_state ''Maharashtra'',
      Transform Le_city ''Mumbai'', St_error ''Prediction error: no mapping'']"
  proof -
    let ?a = "stub_artifacts\<lparr>le_city := broken_encoder\<rparr>"
    have k: "selected_city mumbai \<in> set (classes (le_city ?a))"
      by (simp add: defs)
    have h: "transform (le_country ?a) ''India'' = Inr 5 \<and>
             transform (le_state ?a) (selected_state mumbai) = Inr 1 \<and>
             transform (le_city ?a) (selected_city mumbai)
               = Inl (Exn ''AttributeError'' ''no mapping'')"
      by (simp add: defs)
    from failures_shown_as_prediction_error
           [OF k, THEN conjunct2, THEN conjunct2, THEN conjunct1, THEN mp, OF h]
    show ?thesis by (simp add: mumbai_def)
  qed
  have 4: "prediction_engine (*) stub_artifacts (mumbai\<lparr>prop_type := ''Castle''\<rparr>) =
     [Transform Le_country ''India'', Transform Le_state ''Maharashtra'',
      Transform Le_city ''Mumbai'', Transform Le_type ''Castle'',
      St_error (''Prediction error: y contains previously unseen labels: ''
                  @ [CHR 0x27] @ ''Castle'' @ [CHR 0x27])]"
  proof -
    let ?s = "mumbai\<lparr>prop_type := ''Castle''\<rparr>"
    have k: "selected_city ?s \<in> set (classes (le_city stub_artifacts))"
      by (simp add: defs)
    have h: "transform (le_country stub_artifacts) ''India'' = Inr 5 \<and>
             transform (le_state stub_artifacts) (selected_state ?s) = Inr 1 \<and>
             transform (le_city stub_artifacts) (selected_city ?s) = Inr 0 \<and>
             transform (le_type stub_artifacts) (prop_type ?s)
               = Inl (Exn ''ValueError'' (''y contains previously unseen labels: ''
                        @ [CHR 0x27] @ ''Castle'' @ [CHR 0x27]))"
      by (simp add: defs)
    from failures_shown_as_prediction_error
           [OF k, THEN conjunct2, THEN conjunct2, THEN conjunct2, THEN conjunct1, THEN mp, OF h]
    show ?thesis by (simp add: mumbai_def)
  qed
  have 5: "prediction_engine (*) stub_artifacts (mumbai\<lparr>condition := ''Ruined''\<rparr>) =
     [Transform Le_country ''India'', Transform Le_state ''Maharashtra'',
      Transform Le_city ''Mumbai'', Transform Le_type ''Apartment'',
      Transform Le_condition ''Ruined'',
      St_error (''Prediction error: y contains previously unseen labels: ''
                  @ [CHR 0x27] @ ''Ruined'' @ [CHR 0x27])]"
  proof -
    let ?s = "mumbai\<lparr>condition := ''Ruined''\<rparr>"
    have k: "selected_city ?s \<in> set (classes (le_city stub_artifacts))"
      by (simp add: defs)
    have h: "transform (le_country stub_artifacts) ''India'' = Inr 5 \<and>
             transform (le_state stub_artifacts) (selected_state ?s) = Inr 1 \<and>
             transform (le_city stub_artifacts) (selected_city ?s) = Inr 0 \<and>
             transform (le_type stub_artifacts) (prop_type ?s) = Inr 0 \<and>
             transform (le_condition stub_artifacts) (condition ?s)
               = Inl (Exn ''ValueError'' (''y contains previously unseen labels: ''
                        @ [CHR 0x27] @ ''Ruined'' @ [CHR 0x27]))"
      by (simp add: defs)
    from failures_shown_as_prediction_error
           [OF k, THEN conjunct2, THEN conjunct2, THEN conjunct2, THEN conjunct2,
            THEN conjunct1, THEN mp, OF h]
    show ?thesis by (simp add: mumbai_def)
  qed
  have 6: "prediction_engine (*) stub_artifacts (mumbai\<lparr>year := 1999\<rparr>) =
     [Transform Le_country ''India'', Transform Le_state ''Maharashtra'',
      Transform Le_city ''Mumbai'', Transform Le_type ''Apartment'',
      Transform Le_condition ''Excellent'',
      Predict (input_data (mumbai\<lparr>year := 1999\<rparr>) 5 1 0 0 0),
      St_error ''Prediction error: year out of range'']"
  proof -
    let ?s = "mumbai\<lparr>year := 1999\<rparr>"
    have k: "selected_city ?s \<in> set (classes (le_city stub_artifacts))"
      by (simp add: defs)
    have h: "transform (le_country stub_artifacts) ''India'' = Inr 5 \<and>
             transform (le_state stub_artifacts) (selected_state ?s) = Inr 1 \<and>
             transform (le_city stub_artifacts) (selected_city ?s) = Inr 0 \<and>
             transform (le_type stub_artifacts) (prop_type ?s) = Inr 0 \<and>
             transform (le_condition stub_artifacts) (condition ?s) = Inr 0 \<and>
             model stub_artifacts (input_data ?s 5 1 0 0 0)
               = Inl (Exn ''ValueError'' ''year out of range'')"
      by (simp add: defs stub_predict_def input_data_def)
    from failures_shown_as_prediction_error
           [OF k, THEN conjunct2, THEN conjunct2, THEN conjunct2, THEN conjunct2,
            THEN conjunct2, THEN mp, OF h]
    show ?thesis by (simp add: mumbai_def)
  qed
  from 1 2 3 4 5 6 show ?thesis
    by blast
qed

section \<open>Startup\<close>

lemma check_all_present:
  "\<forall>g \<in> set files. path_exists g \<Longrightarrow>
   check_required_files path_exists files = (map Path_exists files, False)"
  by (induction files) auto

lemma check_first_missing:
  "\<forall>g \<in> set pre. path_exists g \<Longrightarrow> \<not> path_exists file \<Longrightarrow>
   check_required_files path_exists (pre @ file # post) =
     (map Path_exists pre @ [Path_exists file, St_error (missing_file_message file)], True)"
  by (induction pre) auto

lemma split_at_first:
  "file \<in> set files \<Longrightarrow>
   \<exists>post. files = takeWhile (\<lambda>g. g \<noteq> file) files @ file # post"
  by (induction files) auto

lemma check_stopped_no_load:
  "check_required_files path_exists files = (es, True) \<Longrightarrow> Joblib_load g \<notin> set es"
  by (induction files arbitrary: es) (auto split: if_splits prod.splits)

lemma check_not_stopped:
  "check_required_files path_exists files = (es, False) \<Longrightarrow> \<forall>g \<in> set files. path_exists g"
  by (induction files arbitrary: es) (auto split: if_splits prod.splits)

lemma script_all_present:
  assumes "\<forall>g \<in> set required_files. path_exists g"
  shows "script path_exists fmul a s clicked =
           map Path_exists required_files @ load_artifacts
             @ (if clicked then prediction_engine fmul a s else [])"
  using check_all_present [OF assms] by (simp add: script_def)

lemma script_first_missing:
  assumes "required_files = pre @ file # post" "\<forall>g \<in> set pre. path_exists g" "\<not> path_exists file"
  shows "script path_exists fmul a s clicked =
           map Path_exists pre @ [Path_exists file, St_error (missing_file_message file)]"
  using check_first_missing [OF assms(2,3), of post] assms(1) by (simp add: script_def)

text \<open>
  Claim C5. The loop over the six required files comes before every \<^verbatim>\<open>joblib.load\<close>: a
  run in which any file is loaded has first checked all six, in their order. When one
  required file is absent and the others are present, the run of the script ends, after
  the checks up to that file, with one error message that names the file and tells to run
  \<^verbatim>\<open>python train_model.py\<close>; nothing is loaded and, whatever the form holds and whether
  or not the button was clicked, the engine does not run.
\<close>

theorem artifacts_checked_before_loaded:
  "(Joblib_load loaded \<in> set (script path_exists fmul a s clicked) \<longrightarrow>
      (\<exists>rest. script path_exists fmul a s clicked =
                 map Path_exists required_files @ load_artifacts @ rest))
   \<and> (file \<in> set required_files \<and> \<not> path_exists file \<and>
       (\<forall>g \<in> set required_files. g \<noteq> file \<longrightarrow> path_exists g) \<longrightarrow>
      script path_exists fmul a s clicked =
        map Path_exists (takeWhile (\<lambda>g. g \<noteq> file) required_files)
          @ [Path_exists file,
             St_error (''Missing file: '' @ file
                         @ ''. Please run `python train_model.py` first.'')])"
proof (intro conjI impI)
  assume l: "Joblib_load loaded \<in> set (script path_exists fmul a s clicked)"
  obtain es stopped where c: "check_required_files path_exists required_files = (es, stopped)"
    by (cases "check_required_files path_exists required_files")
  show "\<exists>rest. script path_exists fmul a s clicked =
                 map Path_exists required_files @ load_artifacts @ rest"
  proof (cases stopped)
    case True
    with c l check_stopped_no_load [of path_exists required_files es loaded] show ?thesis
      by (simp add: script_def)
  next
    case False
    with c have "check_required_files path_exists required_files = (es, False)"
      by simp
    then have "\<forall>g \<in> set required_files. path_exists g"
      by (rule check_not_stopped)
    then show ?thesis
      using script_all_present by blast
  qed
next
  assume h: "file \<in> set required_files \<and> \<not> path_exists file \<and>
       (\<forall>g \<in> set required_files. g \<noteq> file \<longrightarrow> path_exists g)"
  then have mem: "file \<in> set required_files"
    and others: "\<forall>g \<in> set required_files. g \<noteq> file \<longrightarrow> path_exists g"
    by simp_all
  from split_at_first [OF mem] obtain post where
    sp: "required_files = takeWhile (\<lambda>g. g \<noteq> file) required_files @ file # post" ..
  have pre: "\<forall>g \<in> set (takeWhile (\<lambda>g. g \<noteq> file) required_files). path_exists g"
  proof
    fix g assume "g \<in> set (takeWhile (\<lambda>g. g \<noteq> file) required_files)"
    then have "g \<in> set required_files \<and> g \<noteq> file"
      by (rule set_takeWhileD)
    with others show "path_exists g"
      by blast
  qed
  from h have nf: "\<not> path_exists file"
    by simp
  show "script path_exists fmul a s clicked =
        map Path_exists (takeWhile (\<lambda>g. g \<noteq> file) required_files)
          @ [Path_exists file,
             St_error (''Missing file: '' @ file
                         @ ''. Please run `python train_model.py` first.'')]"
    unfolding script_first_missing [OF sp pre nf] missing_file_message_def ..
qed

theorem artifacts_checked_before_loaded_witness:
  "Joblib_load ''le_city.pkl'' \<in> set (script (\<lambda>f. True) (*) stub_artifacts gangtok True) \<and>
   (\<exists>rest. script (\<lambda>f. True) (*) stub_artifacts gangtok True =
              map Path_exists required_files @ load_artifacts @ rest) \<and>
   ''le_city.pkl'' \<in> set required_files \<and> \<not> (\<lambda>f. f \<noteq> ''le_city.pkl'') ''le_city.pkl'' \<and>
   script (\<lambda>f. f \<noteq> ''le_city.pkl'') (*) stub_artifacts mumbai True =
     [Path_exists ''ghormach_model.pkl'', Path_exists ''le_country.pkl'',
      Path_exists ''le_state.pkl'', Path_exists ''le_city.pkl'',
      St_error ''Missing file: le_city.pkl. Please run `python train_model.py` first.'']"
proof -
  have l: "Joblib_load ''le_city.pkl'' \<in> set (script (\<lambda>f. True) (*) stub_artifacts gangtok True)"
    by (simp add: script_def required_files_def load_artifacts_def)
  have m: "''le_city.pkl'' \<in> set required_files \<and> \<not> (\<lambda>f. f \<noteq> ''le_city.pkl'') ''le_city.pkl'' \<and>
           (\<forall>g \<in> set required_files. g \<noteq> ''le_city.pkl'' \<longrightarrow> (\<lambda>f. f \<noteq> ''le_city.pkl'') g)"
    by (simp add: required_files_def)
  have t: "takeWhile (\<lambda>g. g \<noteq> ''le_city.pkl'') required_files =
             [''ghormach_model.pkl'', ''le_country.pkl'', ''le_state.pkl'']"
    by (simp add: required_files_def)
  from artifacts_checked_before_loaded
         [of "''le_city.pkl''" "\<lambda>f. True" "(*)" stub_artifacts gangtok True, THEN conjunct1,
          THEN mp, OF l]
  have 1: "\<exists>rest. script (\<lambda>f. True) (*) stub_artifacts gangtok True =
              map Path_exists required_files @ load_artifacts @ rest" .
  from artifacts_checked_before_loaded
         [of _ "\<lambda>f. f \<noteq> ''le_city.pkl''" "(*)" stub_artifacts mumbai True "''le_city.pkl''",
          THEN conjunct2, THEN mp, OF m]
  have 2: "script (\<lambda>f. f \<noteq> ''le_city.pkl'') (*) stub_artifacts mumbai True =
     [Path_exists ''ghormach_model.pkl'', Path_exists ''le_country.pkl'',
      Path_exists ''le_state.pkl'', Path_exists ''le_city.pkl'',
      St_error ''Missing file: le_city.pkl. Please run `python train_model.py` first.'']"
    by (simp add: t)
  from l 1 m 2 show ?thesis
    by blast
qed

lemma required_files_distinct: "distinct required_files"
  by (simp add: required_files_def)

lemma missing_file_message_inj: "missing_file_message f = missing_file_message g \<Longrightarrow> f = g"
  by (simp add: missing_file_message_def)

text \<open>
  Claim C10. The check stops at the first required file that is absent: whatever the
  state of the files after it in the list, the run ends with the one message that names
  that first file; no later file is checked and none is named.
\<close>

theorem first_missing_file_only:
  assumes "required_files = pre @ file # post" "\<forall>g \<in> set pre. path_exists g" "\<not> path_exists file"
  shows "script path_exists fmul a s clicked =
           map Path_exists pre
             @ [Path_exists file,
                St_error (''Missing file: '' @ file
                            @ ''. Please run `python train_model.py` first.'')]
         \<and> (\<forall>g \<in> set post.
               Path_exists g \<notin> set (script path_exists fmul a s clicked) \<and>
               St_error (missing_file_message g) \<notin> set (script path_exists fmul a s clicked))"
proof -
  have eq: "script path_exists fmul a s clicked =
           map Path_exists pre @ [Path_exists file, St_error (missing_file_message file)]"
    using assms by (rule script_first_missing)
  have d: "distinct (pre @ file # post)"
    using required_files_distinct unfolding assms(1) .
  have "Path_exists g \<notin> set (script path_exists fmul a s clicked) \<and>
        St_error (missing_file_message g) \<notin> set (script path_exists fmul a s clicked)"
    if "g \<in> set post" for g
  proof -
    from d that have "g \<notin> set pre" "g \<noteq> file"
      by auto
    then have "missing_file_message g \<noteq> missing_file_message file"
      using missing_file_message_inj by blast
    with \<open>g \<notin> set pre\<close> \<open>g \<noteq> file\<close> show ?thesis
      unfolding eq by auto
  qed
  then show ?thesis
    unfolding eq missing_file_message_def by blast
qed

theorem first_missing_file_only_witness:
  "required_files = [''ghormach_model.pkl'', ''le_country.pkl''] @ ''le_state.pkl''
                      # [''le_city.pkl'', ''le_type.pkl'', ''le_condition.pkl''] \<and>
   \<not> (\<lambda>f. f \<noteq> ''le_state.pkl'' \<and> f \<noteq> ''le_type.pkl'') ''le_state.pkl'' \<and>
   \<not> (\<lambda>f. f \<noteq> ''le_state.pkl'' \<and> f \<noteq> ''le_type.pkl'') ''le_type.pkl'' \<and>
   script (\<lambda>f. f \<noteq> ''le_state.pkl'' \<and> f \<noteq> ''le_type.pkl'') (*) stub_artifacts mumbai True =
     [Path_exists ''ghormach_model.pkl'', Path_exists ''le_country.pkl'',
      Path_exists ''le_state.pkl'',
      St_error ''Missing file: le_state.pkl. Please run `python train_model.py` first.''] \<and>
   St_error (missing_file_message ''le_type.pkl'')
     \<notin> set (script (\<lambda>f. f \<noteq> ''le_state.pkl'' \<and> f \<noteq> ''le_type.pkl'') (*)
               stub_artifacts mumbai True) \<and>
   Path_exists ''le_type.pkl''
     \<notin> set (script (\<lambda>f. f \<noteq> ''le_state.pkl'' \<and> f \<noteq> ''le_type.pkl'') (*)
               stub_artifacts mumbai True)"
proof -
  let ?pe = "\<lambda>f. f \<noteq> ''le_state.pkl'' \<and> f \<noteq> ''le_type.pkl''"
  have r: "required_files = [''ghormach_model.pkl'', ''le_country.pkl''] @ ''le_state.pkl''
                      # [''le_city.pkl'', ''le_type.pkl'', ''le_condition.pkl'']"
    by (simp add: required_files_def)
  have p: "\<forall>g \<in> set [''ghormach_model.pkl'', ''le_country.pkl'']. ?pe g"
    by simp
  have n: "\<not> ?pe ''le_state.pkl''" "\<not> ?pe ''le_type.pkl''"
    by simp_all
  have i: "''le_type.pkl'' \<in> set [''le_city.pkl'', ''le_type.pkl'', ''le_condition.pkl'']"
    by simp
  note w = first_missing_file_only [OF r p n(1), of "(*)" stub_artifacts mumbai True]
  from w have 1: "script ?pe (*) stub_artifacts mumbai True =
     [Path_exists ''ghormach_model.pkl'', Path_exists ''le_country.pkl'',
      Path_exists ''le_state.pkl'',
      St_error ''Missing file: le_state.pkl. Please run `python train_model.py` first.'']"
    by simp
  from w i have 2: "Path_exists ''le_type.pkl'' \<notin> set (script ?pe (*) stub_artifacts mumbai True) \<and>
     St_error (missing_file_message ''le_type.pkl'')
       \<notin> set (script ?pe (*) stub_artifacts mumbai True)"
    by blast
  from r n 1 2 show ?thesis
    by blast
qed

section \<open>The prices shown\<close>

text \<open>
  The text \<^const>\<open>format_comma_0f\<close> gives, read back, is the integer nearest to the value
  (the even one of the two at a tie).
\<close>

declare digits.simps [simp del]

lemma round_half_even_near: "\<bar>of_int (round_half_even x) - x\<bar> \<le> 1 / 2"
proof -
  have "of_int \<lfloor>x\<rfloor> \<le> x" "x < of_int \<lfloor>x\<rfloor> + 1"
    by linarith+
  then show ?thesis
    by (auto simp: round_half_even_def Let_def abs_le_iff)
qed

lemma round_half_even_nonneg: "0 \<le> x \<Longrightarrow> 0 \<le> round_half_even x"
  by (auto simp: round_half_even_def Let_def)

lemma round_half_even_nonpos: "x < 0 \<Longrightarrow> round_half_even x \<le> 0"
proof -
  assume "x < 0"
  then have "\<lfloor>x\<rfloor> < 0"
    by (simp add: floor_less_iff)
  then show ?thesis
    by (auto simp: round_half_even_def Let_def)
qed

lemma of_char_digit: "d < 10 \<Longrightarrow> (of_char (char_of (48 + d :: nat)) :: nat) = 48 + d"
  by (simp add: of_char_of)

lemma read_nat_snoc: "read_nat (ds @ [c]) = 10 * read_nat ds + (of_char c - 48)"
  by (simp add: read_nat_def)

lemma read_nat_digits: "read_nat (digits n) = n"
proof (induction n rule: digits.induct)
  case (1 n)
  show ?case
  proof (cases "n < 10")
    case True
    then show ?thesis
      by (subst digits.simps) (simp add: read_nat_def of_char_digit)
  next
    case False
    with "1" have "read_nat (digits (n div 10)) = n div 10"
      by simp
    with False show ?thesis
      by (subst digits.simps) (simp add: read_nat_snoc of_char_digit)
  qed
qed

lemma digits_chars: "c \<in> set (digits n) \<Longrightarrow> 48 \<le> (of_char c :: nat)"
proof (induction n rule: digits.induct)
  case (1 n)
  show ?case
  proof (cases "n < 10")
    case True
    with "1.prems" show ?thesis
      by (subst (asm) digits.simps) (auto simp: of_char_digit)
  next
    case False
    with "1.prems" have "c \<in> set (digits (n div 10)) \<or> c = char_of (48 + n mod 10)"
      by (subst (asm) digits.simps) auto
    with False "1.IH" show ?thesis
      by (auto simp: of_char_digit)
  qed
qed

lemma digits_nonempty: "digits n \<noteq> []"
  by (subst digits.simps) simp

lemma digits_no_comma: "CHR '','' \<notin> set (digits n)"
  using digits_chars [of "CHR '',''" n] by auto

lemma digits_no_minus: "CHR ''-'' \<notin> set (digits n)"
  using digits_chars [of "CHR ''-''" n] by auto

lemma filter_group3: "CHR '','' \<notin> set ds \<Longrightarrow> filter (\<lambda>d. d \<noteq> CHR '','') (group3 ds) = ds"
  by (induction ds rule: group3.induct) auto

lemma set_group3: "set (group3 ds) \<subseteq> insert (CHR '','') (set ds)"
  by (induction ds rule: group3.induct) auto

lemma group3_nonempty: "ds \<noteq> [] \<Longrightarrow> group3 ds \<noteq> []"
  by (induction ds rule: group3.induct) auto

lemma read_int_format: "read_int (format_comma_0f x) = round_half_even x"
proof -
  define n where "n = nat \<bar>round_half_even x\<bar>"
  define g where "g = rev (group3 (rev (digits n)))"
  have "filter (\<lambda>d. d \<noteq> CHR '','') g = rev (filter (\<lambda>d. d \<noteq> CHR '','') (group3 (rev (digits n))))"
    unfolding g_def by (simp add: rev_filter)
  also have "\<dots> = rev (rev (digits n))"
    by (simp add: filter_group3 digits_no_comma)
  finally have f: "filter (\<lambda>d. d \<noteq> CHR '','') g = digits n"
    by simp
  have ne: "g \<noteq> []"
    by (simp add: g_def group3_nonempty digits_nonempty)
  have nm: "CHR ''-'' \<notin> set g"
  proof
    assume "CHR ''-'' \<in> set g"
    then have "CHR ''-'' \<in> set (group3 (rev (digits n)))"
      by (simp add: g_def)
    with set_group3 [of "rev (digits n)"] have "CHR ''-'' \<in> set (digits n)"
      by auto
    with digits_no_minus show False
      by blast
  qed
  show ?thesis
  proof (cases "x < 0")
    case True
    then have "format_comma_0f x = CHR ''-'' # g"
      by (simp add: format_comma_0f_def g_def n_def)
    then have "read_int (format_comma_0f x) = - int n"
      by (simp add: f read_nat_digits)
    also have "\<dots> = round_half_even x"
      using round_half_even_nonpos [OF True] by (simp add: n_def)
    finally show ?thesis .
  next
    case False
    then have e: "format_comma_0f x = g"
      by (simp add: format_comma_0f_def g_def n_def)
    from ne obtain c cs where g: "g = c # cs"
      by (cases g) auto
    with nm have "c \<noteq> CHR ''-''"
      by auto
    then have "read_int (c # cs) = int (read_nat (filter (\<lambda>d. d \<noteq> CHR '','') (c # cs)))"
      by simp
    with g f have "read_int g = int n"
      by (simp add: read_nat_digits)
    also have "\<dots> = round_half_even x"
      using round_half_even_nonneg [of x] False by (simp add: n_def)
    finally show ?thesis
      using e by simp
  qed
qed

lemma shown_price_nearest: "\<bar>of_int (read_int (format_comma_0f x)) - x\<bar> \<le> 1 / 2"
  by (simp only: read_int_format round_half_even_near)

text \<open>
  Claim C3. When the selected city is among \<^verbatim>\<open>le_city.classes_\<close>, the five encoders
  return codes and the model returns a value, the click shows, after the six calls, the
  header with the name of the city and the two prices: the price in rupees is the product
  of the model's value and exactly \<open>86.5\<close> (as the multiplication of floats gives it), the
  other is the model's value, and each is shown as the whole number nearest to it.
  Values that are not finite (\<^verbatim>\<open>nan\<close>, \<^verbatim>\<open>inf\<close>) are not modelled.
\<close>

theorem known_city_result_shown:
  assumes "selected_city s \<in> set (classes (le_city a))"
    and "transform (le_country a) ''India'' = Inr country_enc"
    and "transform (le_state a) (selected_state s) = Inr state_enc"
    and "transform (le_city a) (selected_city s) = Inr city_enc"
    and "transform (le_type a) (prop_type s) = Inr type_enc"
    and "transform (le_condition a) (condition s) = Inr condition_enc"
    and "model a (input_data s country_enc state_enc city_enc type_enc condition_enc)
           = Inr prediction_usd"
  shows "prediction_engine fmul a s =
           [Transform Le_country ''India'', Transform Le_state (selected_state s),
            Transform Le_city (selected_city s), Transform Le_type (prop_type s),
            Transform Le_condition (condition s),
            Predict (input_data s country_enc state_enc city_enc type_enc condition_enc),
            St_subheader (''Estimated Value in '' @ selected_city s),
            St_metric ''Price in INR''
              (rupee_sign @ format_comma_0f (fmul prediction_usd (173 / 2))),
            St_metric ''Price in USD'' (''$'' @ format_comma_0f prediction_usd)]
         \<and> \<bar>of_int (read_int (format_comma_0f (fmul prediction_usd (173 / 2))))
              - fmul prediction_usd (173 / 2)\<bar> \<le> 1 / 2
         \<and> \<bar>of_int (read_int (format_comma_0f prediction_usd)) - prediction_usd\<bar> \<le> 1 / 2"
proof (intro conjI)
  show "prediction_engine fmul a s =
           [Transform Le_country ''India'', Transform Le_state (selected_state s),
            Transform Le_city (selected_city s), Transform Le_type (prop_type s),
            Transform Le_condition (condition s),
            Predict (input_data s country_enc state_enc city_enc type_enc condition_enc),
            St_subheader (''Estimated Value in '' @ selected_city s),
            St_metric ''Price in INR''
              (rupee_sign @ format_comma_0f (fmul prediction_usd (173 / 2))),
            St_metric ''Price in USD'' (''$'' @ format_comma_0f prediction_usd)]"
    using assms
    by (simp add: prediction_engine_def try_block_def call_transform_def call_predict_def
        show_result_def prediction_inr_def exchange_rate_def)
qed (rule shown_price_nearest)+

theorem known_city_result_shown_witness:
  "prediction_engine (*) (stub_artifacts\<lparr>model := \<lambda>df. Inr (25 / 2)\<rparr>) mumbai =
     [Transform Le_country ''India'', Transform Le_state ''Maharashtra'',
      Transform Le_city ''Mumbai'', Transform Le_type ''Apartment'',
      Transform Le_condition ''Excellent'', Predict (input_data mumbai 5 1 0 0 0),
      St_subheader (''Estimated Value in '' @ ''Mumbai''),
      St_metric ''Price in INR'' (rupee_sign @ ''1,081''),
      St_metric ''Price in USD'' (''$'' @ ''12'')] \<and>
   \<bar>of_int (read_int ''1,081'') - (4325 / 4 :: rat)\<bar> \<le> 1 / 2 \<and>
   \<bar>of_int (read_int ''12'') - (25 / 2 :: rat)\<bar> \<le> 1 / 2"
proof -
  let ?a = "stub_artifacts\<lparr>model := \<lambda>df. Inr (25 / 2)\<rparr>"
  have k: "selected_city mumbai \<in> set (classes (le_city ?a))"
    by (simp add: stub_artifacts_def mumbai_def fitted_def)
  have t: "transform (le_country ?a) ''India'' = Inr 5"
    "transform (le_state ?a) (selected_state mumbai) = Inr 1"
    "transform (le_city ?a) (selected_city mumbai) = Inr 0"
    "transform (le_type ?a) (prop_type mumbai) = Inr 0"
    "transform (le_condition ?a) (condition mumbai) = Inr 0"
    by (simp_all add: stub_artifacts_def mumbai_def fitted_def)
  have m: "model ?a (input_data mumbai 5 1 0 0 0) = Inr (25 / 2)"
    by simp
  have p: "(25 / 2) * (173 / 2) = (4325 / 4 :: rat)"
    by simp
  have f1: "format_comma_0f (4325 / 4) = ''1,081''"
    by code_simp
  have f2: "format_comma_0f (25 / 2) = ''12''"
    by code_simp
  have v: "selected_state mumbai = ''Maharashtra''" "selected_city mumbai = ''Mumbai''"
    "prop_type mumbai = ''Apartment''" "condition mumbai = ''Excellent''"
    by (simp_all add: mumbai_def)
  note w = known_city_result_shown [OF k t m, of "(*)"]
  show ?thesis
    using w unfolding p f1 f2 v .
qed

end
